theory Spec2Isabelle
  imports Complex_Main
begin

section \<open>Conventions\<close>

text \<open>
  The development embeds the core of \<^verbatim>\<open>traffic.py\<close>: the density calculator, the
  traffic light with its controller, and the per-connection handler of the
  communication manager.

  Python numbers are embedded as follows: vehicle counts are \<open>int\<close>, durations,
  densities and clock readings are \<open>real\<close> (Python floats are read as the real
  numbers they denote), \<open>int(x)\<close> is truncation toward zero. Every call of
  \<^verbatim>\<open>time.time()\<close> is an explicit argument of the function that makes it. Exceptions
  are values of \<open>py_error\<close>. Logging is not modelled.
\<close>

datatype py_error = KeyError | ZeroDivisionError | TypeError | JSONDecodeError | UnicodeDecodeError | OSError

section \<open>Traffic density calculator\<close>

text \<open>
  \<^verbatim>\<open>collections.deque(maxlen=n)\<close> as a list, oldest element first. \<open>append\<close> on a
  full deque discards the element at the left end; with \<open>maxlen = 0\<close> the deque
  stays empty.
\<close>

definition deque_append :: "nat \<Rightarrow> 'a list \<Rightarrow> 'a \<Rightarrow> 'a list" where
  "deque_append maxlen xs x =
     (if maxlen = 0 then []
      else if length xs \<ge> maxlen then drop (Suc (length xs) - maxlen) (xs @ [x])
      else xs @ [x])"

record TrafficDensityCalculator =
  window_size :: nat
  congestion_threshold :: real
  vehicle_counts :: "int list"
  density_history :: "real list"
  last_update_time :: real

definition TrafficDensityCalculator_init :: "nat \<Rightarrow> real \<Rightarrow> real \<Rightarrow> TrafficDensityCalculator" where
  "TrafficDensityCalculator_init ws thr now =
     \<lparr> window_size = ws, congestion_threshold = thr, vehicle_counts = [],
       density_history = [], last_update_time = now \<rparr>"

text \<open>
  \<^verbatim>\<open>calculate_density\<close>: \<open>0\<close> on an empty window; otherwise the mean of the window
  divided by the threshold, capped at \<open>1.0\<close>. Division by a zero threshold raises.
\<close>

definition calculate_density :: "TrafficDensityCalculator \<Rightarrow> py_error + real" where
  "calculate_density c =
     (if vehicle_counts c = [] then Inr 0
      else
        let avg_count = real_of_int (sum_list (vehicle_counts c)) / real (length (vehicle_counts c))
        in if congestion_threshold c = 0 then Inl ZeroDivisionError
           else Inr (min 1 (avg_count / congestion_threshold c)))"

text \<open>
  \<^verbatim>\<open>update\<close>: the count is appended and the clock stored before the density is
  computed, so both survive an exception of \<open>calculate_density\<close>; the density is
  recorded in the history (a deque of at most 100 entries) only when it was computed.
\<close>

definition update :: "real \<Rightarrow> int \<Rightarrow> TrafficDensityCalculator \<Rightarrow> (py_error + real) \<times> TrafficDensityCalculator" where
  "update now vehicle_count c =
     (let c1 = c\<lparr> vehicle_counts := deque_append (window_size c) (vehicle_counts c) vehicle_count \<rparr>;
          c2 = c1\<lparr> last_update_time := now \<rparr>
      in case calculate_density c2 of
           Inl e \<Rightarrow> (Inl e, c2)
         | Inr density \<Rightarrow> (Inr density, c2\<lparr> density_history := deque_append 100 (density_history c2) density \<rparr>))"

text \<open>A sequence of \<open>update\<close> calls, each with its clock reading; the results are collected.\<close>

fun updates :: "(real \<times> int) list \<Rightarrow> TrafficDensityCalculator \<Rightarrow> (py_error + real) list \<times> TrafficDensityCalculator" where
  "updates [] c = ([], c)"
| "updates ((now, n) # rest) c =
     (let (r, c1) = update now n c; (rs, c2) = updates rest c1 in (r # rs, c2))"

text \<open>The mean of a window of samples, and the closed interval from 0 to 1.\<close>

definition mean :: "int list \<Rightarrow> real" where
  "mean xs = real_of_int (sum_list xs) / real (length xs)"


section \<open>Traffic light\<close>

text \<open>
  Phases and light identifiers are Python strings. The timing table is a dictionary
  from phase name to duration; a key the dictionary lacks raises \<open>KeyError\<close> on
  lookup. An entry of the adjustment history is a record of the four fields the
  source stores.
\<close>

record timing_record =
  timestamp :: real
  phase :: string
  old_value :: real
  new_value :: real

record TrafficLight =
  light_id :: string
  timing :: "string \<rightharpoonup> real"
  current_phase :: string
  phase_start_time :: real
  connected_lights :: "string list"
  timing_history :: "timing_record list"

definition default_timing :: "string \<rightharpoonup> real" where
  "default_timing = [''green'' \<mapsto> 30, ''yellow'' \<mapsto> 5, ''red'' \<mapsto> 30]"

text \<open>\<^verbatim>\<open>TrafficLight.__init__\<close>: a caller-supplied timing table is stored as it is.\<close>

definition TrafficLight_init :: "string \<Rightarrow> (string \<rightharpoonup> real) option \<Rightarrow> real \<Rightarrow> TrafficLight" where
  "TrafficLight_init i initial_timing now =
     \<lparr> light_id = i,
       timing = (case initial_timing of None \<Rightarrow> default_timing | Some t \<Rightarrow> t),
       current_phase = ''red'',
       phase_start_time = now,
       connected_lights = [],
       timing_history = [] \<rparr>"

text \<open>The transition order of \<^verbatim>\<open>transition_to_next_phase\<close>, as the source's if-chain.\<close>

definition next_phase :: "string \<Rightarrow> string" where
  "next_phase p =
     (if p = ''green'' then ''yellow''
      else if p = ''yellow'' then ''red''
      else ''green'')"

definition transition_to_next_phase :: "real \<Rightarrow> TrafficLight \<Rightarrow> string \<times> TrafficLight" where
  "transition_to_next_phase now l =
     (let np = next_phase (current_phase l)
      in (np, l\<lparr> current_phase := np, phase_start_time := now \<rparr>))"

text \<open>
  \<^verbatim>\<open>get_current_phase\<close>: \<open>t1\<close> is the clock read by the method itself, \<open>t2\<close> the clock
  read by \<open>transition_to_next_phase\<close> when the transition is made.
\<close>

definition get_current_phase :: "real \<Rightarrow> real \<Rightarrow> TrafficLight \<Rightarrow> py_error + (string \<times> TrafficLight)" where
  "get_current_phase t1 t2 l =
     (let elapsed = t1 - phase_start_time l
      in case timing l (current_phase l) of
           None \<Rightarrow> Inl KeyError
         | Some d \<Rightarrow>
             if elapsed \<ge> d then
               (let l' = snd (transition_to_next_phase t2 l) in Inr (current_phase l', l'))
             else Inr (current_phase l, l))"

definition adjust_timing :: "real \<Rightarrow> string \<Rightarrow> real \<Rightarrow> TrafficLight \<Rightarrow> bool \<times> TrafficLight" where
  "adjust_timing now ph new_time l =
     (case timing l ph of
        None \<Rightarrow> (False, l)
      | Some old \<Rightarrow>
          let new_time' = (if ph = ''yellow'' \<and> new_time < 3 then 3 else new_time);
              l1 = l\<lparr> timing_history := timing_history l @
                     [\<lparr> timestamp = now, phase = ph, old_value = old, new_value = new_time' \<rparr>] \<rparr>
          in (True, l1\<lparr> timing := (timing l1)(ph \<mapsto> new_time') \<rparr>))"

definition get_time_remaining :: "real \<Rightarrow> TrafficLight \<Rightarrow> py_error + real" where
  "get_time_remaining now l =
     (let elapsed = now - phase_start_time l
      in case timing l (current_phase l) of
           None \<Rightarrow> Inl KeyError
         | Some d \<Rightarrow> Inr (max 0 (d - elapsed)))"

definition force_phase :: "real \<Rightarrow> string \<Rightarrow> TrafficLight \<Rightarrow> bool \<times> TrafficLight" where
  "force_phase now new_phase l =
     (if new_phase \<notin> set [''red'', ''yellow'', ''green''] then (False, l)
      else (True, l\<lparr> current_phase := new_phase, phase_start_time := now \<rparr>))"

text \<open>
  The operations a client of a traffic light can invoke, each with the clock readings
  it makes, and a run of such operations. A run collects the phases returned by
  \<open>get_current_phase\<close>; a call that raises returns nothing and changes nothing.
\<close>

datatype light_op =
    GetCurrentPhase real real
  | AdjustTiming real string real
  | GetTimeRemaining real
  | ForcePhase real string

fun is_force :: "light_op \<Rightarrow> bool" where
  "is_force (ForcePhase _ _) = True"
| "is_force _ = False"

fun apply_light_op :: "light_op \<Rightarrow> TrafficLight \<Rightarrow> string list \<times> TrafficLight" where
  "apply_light_op (GetCurrentPhase t1 t2) l =
     (case get_current_phase t1 t2 l of Inl e \<Rightarrow> ([], l) | Inr (p, l') \<Rightarrow> ([p], l'))"
| "apply_light_op (AdjustTiming now ph x) l = ([], snd (adjust_timing now ph x l))"
| "apply_light_op (GetTimeRemaining now) l = ([], l)"
| "apply_light_op (ForcePhase now ph) l = ([], snd (force_phase now ph l))"

fun run_light :: "light_op list \<Rightarrow> TrafficLight \<Rightarrow> string list \<times> TrafficLight" where
  "run_light [] l = ([], l)"
| "run_light (op # ops) l =
     (let (obs, l1) = apply_light_op op l; (obs', l2) = run_light ops l1 in (obs @ obs', l2))"

text \<open>
  A list of phases follows the cycle from \<open>p\<close> when each entry is the entry before it
  (or \<open>p\<close>, for the first) or the successor of that in the transition order.
\<close>

fun follows_cycle :: "string \<Rightarrow> string list \<Rightarrow> bool" where
  "follows_cycle p [] = True"
| "follows_cycle p (q # qs) = ((q = p \<or> q = next_phase p) \<and> follows_cycle q qs)"

section \<open>Traffic light controller\<close>

record TrafficLightController =
  traffic_lights :: "string \<rightharpoonup> TrafficLight"
  traffic_densities :: "string \<rightharpoonup> real"
  coordination_groups :: "string list list"

definition TrafficLightController_init :: TrafficLightController where
  "TrafficLightController_init =
     \<lparr> traffic_lights = Map.empty, traffic_densities = Map.empty, coordination_groups = [] \<rparr>"

definition add_traffic_light ::
  "real \<Rightarrow> string \<Rightarrow> (string \<rightharpoonup> real) option \<Rightarrow> TrafficLightController \<Rightarrow> TrafficLight \<times> TrafficLightController" where
  "add_traffic_light now i initial_timing c =
     (case traffic_lights c i of
        Some l \<Rightarrow> (l, c)
      | None \<Rightarrow>
          let light = TrafficLight_init i initial_timing now
          in (light, c\<lparr> traffic_lights := (traffic_lights c)(i \<mapsto> light),
                         traffic_densities := (traffic_densities c)(i \<mapsto> 0) \<rparr>))"

text \<open>Python's \<open>int(x)\<close> on a float: truncation toward zero.\<close>

definition py_int :: "real \<Rightarrow> int" where
  "py_int x = (if 0 \<le> x then \<lfloor>x\<rfloor> else \<lceil>x\<rceil>)"

text \<open>
  \<^verbatim>\<open>_adjust_timing_based_on_density\<close>. \<open>tg\<close> and \<open>tr\<close> are the clocks read by the two
  calls of \<open>adjust_timing\<close>. The lookup of the yellow time raises when the table has
  no such key, before any adjustment is applied. The result is the exception raised,
  if any, and the controller as the call leaves it.
\<close>

definition adjust_timing_based_on_density ::
  "real \<Rightarrow> real \<Rightarrow> string \<Rightarrow> real \<Rightarrow> TrafficLightController \<Rightarrow> py_error option \<times> TrafficLightController" where
  "adjust_timing_based_on_density tg tr lid density c =
     (case traffic_lights c lid of
        None \<Rightarrow> (Some KeyError, c)
      | Some light \<Rightarrow>
          let base_green_time = (30 :: real);
              max_green_time = (60 :: real);
              min_green_time = (15 :: int);
              new_green_time = py_int (base_green_time + (max_green_time - base_green_time) * density);
              new_green_time = max min_green_time (min 60 new_green_time);
              red_time = max min_green_time (py_int (base_green_time * (1 - density * (1/2))))
          in case timing light ''yellow'' of
               None \<Rightarrow> (Some KeyError, c)
             | Some yellow_time \<Rightarrow>
                 let l1 = snd (adjust_timing tg ''green'' (real_of_int new_green_time) light);
                     l2 = snd (adjust_timing tr ''red'' (real_of_int red_time) l1)
                 in (None, c\<lparr> traffic_lights := (traffic_lights c)(lid \<mapsto> l2) \<rparr>))"

text \<open>
  \<^verbatim>\<open>update_traffic_density\<close>: \<open>False\<close> for an unknown light; otherwise the density is
  stored and the timing adjusted.
\<close>

definition update_traffic_density ::
  "real \<Rightarrow> real \<Rightarrow> string \<Rightarrow> real \<Rightarrow> TrafficLightController \<Rightarrow> (py_error + bool) \<times> TrafficLightController" where
  "update_traffic_density tg tr lid density c =
     (if traffic_lights c lid = None then (Inr False, c)
      else
        let c1 = c\<lparr> traffic_densities := (traffic_densities c)(lid \<mapsto> density) \<rparr>
        in case adjust_timing_based_on_density tg tr lid density c1 of
             (Some e, c2) \<Rightarrow> (Inl e, c2)
           | (None, c2) \<Rightarrow> (Inr True, c2))"

text \<open>
  \<^verbatim>\<open>create_coordination_group\<close>: the first loop returns \<open>False\<close> at an unknown id; the
  second loop connects each listed light to the ids of the list other than its own
  (every listed id is known there, so its lookup cannot raise).
\<close>

fun connect_lights :: "string list \<Rightarrow> string list \<Rightarrow> (string \<rightharpoonup> TrafficLight) \<Rightarrow> (string \<rightharpoonup> TrafficLight)" where
  "connect_lights light_ids [] m = m"
| "connect_lights light_ids (lid # rest) m =
     (case m lid of
        None \<Rightarrow> connect_lights light_ids rest m
      | Some light \<Rightarrow>
          connect_lights light_ids rest
            (m(lid \<mapsto> light\<lparr> connected_lights := filter (\<lambda>i. i \<noteq> lid) light_ids \<rparr>)))"

definition create_coordination_group :: "string list \<Rightarrow> TrafficLightController \<Rightarrow> bool \<times> TrafficLightController" where
  "create_coordination_group light_ids c =
     (if \<exists>lid \<in> set light_ids. traffic_lights c lid = None then (False, c)
      else
        let c1 = c\<lparr> coordination_groups := coordination_groups c @ [light_ids] \<rparr>
        in (True, c1\<lparr> traffic_lights := connect_lights light_ids light_ids (traffic_lights c1) \<rparr>))"

text \<open>
  The search loop of \<^verbatim>\<open>_coordinate_group\<close>: the running maximum starts at \<open>-1\<close> with
  no light, and a light replaces it only on a strictly greater density. A light
  without a stored density counts as \<open>0\<close>.
\<close>

definition get_density :: "(string \<rightharpoonup> real) \<Rightarrow> string \<Rightarrow> real" where
  "get_density ds lid = (case ds lid of None \<Rightarrow> 0 | Some d \<Rightarrow> d)"

fun find_max_density ::
  "(string \<rightharpoonup> real) \<Rightarrow> string list \<Rightarrow> real \<times> string option \<Rightarrow> real \<times> string option" where
  "find_max_density ds [] acc = acc"
| "find_max_density ds (lid # rest) (max_density, max_density_light) =
     (let density = get_density ds lid
      in if density > max_density then find_max_density ds rest (density, Some lid)
         else find_max_density ds rest (max_density, max_density_light))"

text \<open>
  The offset loop of \<^verbatim>\<open>_force_green_wave\<close> over the lights at positions \<open>1, 2, \<dots>\<close> of
  the group: it changes no state; it computes the offset at which each light should
  turn green and raises when a light or the duration of its phase is missing.
\<close>

fun green_wave_offsets ::
  "real \<Rightarrow> (string \<rightharpoonup> TrafficLight) \<Rightarrow> real \<Rightarrow> real \<Rightarrow> string list \<Rightarrow> py_error + (string \<times> real) list" where
  "green_wave_offsets now m time_offset current_offset [] = Inr []"
| "green_wave_offsets now m time_offset current_offset (lid # rest) =
     (case m lid of
        None \<Rightarrow> Inl KeyError
      | Some light \<Rightarrow>
          (case get_time_remaining now light of
             Inl e \<Rightarrow> Inl e
           | Inr remaining \<Rightarrow>
               (case green_wave_offsets now m time_offset (current_offset + time_offset) rest of
                  Inl e \<Rightarrow> Inl e
                | Inr offs \<Rightarrow> Inr ((lid, current_offset) # offs))))"

text \<open>
  \<^verbatim>\<open>_force_green_wave\<close>. \<open>t_rem\<close> is the clock read by \<open>get_time_remaining\<close> on the
  starting light, \<open>t_force\<close> the one read by \<open>force_phase\<close>, \<open>t_loop\<close> the one of the
  offset loop. The result is the exception or the offsets, and the controller as the
  call leaves it.
\<close>

definition force_green_wave ::
  "real \<Rightarrow> real \<Rightarrow> real \<Rightarrow> string list \<Rightarrow> string \<Rightarrow> TrafficLightController
     \<Rightarrow> (py_error + (string \<times> real) list) \<times> TrafficLightController" where
  "force_green_wave t_rem t_force t_loop light_ids starting_light_id c =
     (let avg_distance = (300 :: real);
          avg_speed = (14 :: real);
          time_offset = avg_distance / avg_speed
      in case traffic_lights c starting_light_id of
           None \<Rightarrow> (Inl KeyError, c)
         | Some starting_light \<Rightarrow>
             let about_to_turn =
                   (if current_phase starting_light = ''red'' then
                      (case get_time_remaining t_rem starting_light of
                         Inl e \<Rightarrow> Inl e
                       | Inr remaining \<Rightarrow> Inr (remaining < 5))
                    else Inr False);
                 forced =
                   (if current_phase starting_light \<noteq> ''green'' then
                      (case about_to_turn of
                         Inl e \<Rightarrow> Inl e
                       | Inr True \<Rightarrow> Inr starting_light
                       | Inr False \<Rightarrow>
                           if current_phase starting_light = ''yellow'' then Inr starting_light
                           else Inr (snd (force_phase t_force ''green'' starting_light)))
                    else Inr starting_light)
             in case forced of
                  Inl e \<Rightarrow> (Inl e, c)
                | Inr l' \<Rightarrow>
                    let c1 = c\<lparr> traffic_lights := (traffic_lights c)(starting_light_id \<mapsto> l') \<rparr>
                    in (green_wave_offsets t_loop (traffic_lights c1) time_offset time_offset (tl light_ids), c1))"

text \<open>
  \<^verbatim>\<open>_coordinate_group\<close>. A group of fewer than two lights is left alone, and so is a
  group whose selected id is \<open>None\<close> or false as a Python value (the empty string).
\<close>

definition coordinate_group ::
  "real \<Rightarrow> real \<Rightarrow> real \<Rightarrow> string list \<Rightarrow> TrafficLightController \<Rightarrow> py_error option \<times> TrafficLightController" where
  "coordinate_group t_rem t_force t_loop light_ids c =
     (if light_ids = [] \<or> length light_ids < 2 then (None, c)
      else
        let (max_density, max_density_light) = find_max_density (traffic_densities c) light_ids (-1, None)
        in case max_density_light of
             None \<Rightarrow> (None, c)
           | Some lid \<Rightarrow>
               if lid = [] then (None, c)
               else
                 (case traffic_lights c lid of
                    None \<Rightarrow> (Some KeyError, c)
                  | Some prioritized_light \<Rightarrow>
                      if current_phase prioritized_light \<noteq> ''green'' \<and> max_density > 7/10 then
                        (case force_green_wave t_rem t_force t_loop light_ids lid c of
                           (Inl e, c') \<Rightarrow> (Some e, c')
                         | (Inr offs, c') \<Rightarrow> (None, c'))
                      else (None, c)))"

text \<open>
  \<^verbatim>\<open>coordinate_lights\<close>: the groups in order, stopping at an exception. \<open>clock k\<close>
  gives the three clock readings used for the group at position \<open>k\<close>.
\<close>

fun coordinate_groups ::
  "(nat \<Rightarrow> real \<times> real \<times> real) \<Rightarrow> nat \<Rightarrow> string list list \<Rightarrow> TrafficLightController
     \<Rightarrow> py_error option \<times> TrafficLightController" where
  "coordinate_groups clock k [] c = (None, c)"
| "coordinate_groups clock k (g # gs) c =
     (case clock k of (t_rem, t_force, t_loop) \<Rightarrow>
        (case coordinate_group t_rem t_force t_loop g c of
           (Some e, c') \<Rightarrow> (Some e, c')
         | (None, c') \<Rightarrow> coordinate_groups clock (Suc k) gs c'))"

definition coordinate_lights ::
  "(nat \<Rightarrow> real \<times> real \<times> real) \<Rightarrow> TrafficLightController \<Rightarrow> py_error option \<times> TrafficLightController" where
  "coordinate_lights clock c = coordinate_groups clock 0 (coordination_groups c) c"


text \<open>A controller with the single light \<open>L1\<close>, added at time 0 with the default timing.\<close>

definition controller_L1 :: TrafficLightController where
  "controller_L1 = snd (add_traffic_light 0 ''L1'' None TrafficLightController_init)"

text \<open>
  The same controller after \<open>update_traffic_density('L1', 0.9)\<close> and
  \<open>create_coordination_group(['L1'])\<close>: one group, of one light.
\<close>

definition controller_single_group :: TrafficLightController where
  "controller_single_group =
     snd (create_coordination_group [''L1'']
            (snd (update_traffic_density 0 0 ''L1'' (9/10) controller_L1)))"

text \<open>
  A controller with the lights \<open>L1\<close> and \<open>L2\<close>, and the same after both lights were
  given the density 0.9.
\<close>

definition controller_L1L2 :: TrafficLightController where
  "controller_L1L2 = snd (add_traffic_light 0 ''L2'' None controller_L1)"

definition controller_tie :: TrafficLightController where
  "controller_tie =
     snd (update_traffic_density 0 0 ''L2'' (9/10)
            (snd (update_traffic_density 0 0 ''L1'' (9/10) controller_L1L2)))"

text \<open>A clock that reads 1 at every call.\<close>

definition clock_one :: "nat \<Rightarrow> real \<times> real \<times> real" where
  "clock_one k = (1, 1, 1)"

section \<open>JSON values\<close>

text \<open>
  The values \<^verbatim>\<open>json.loads\<close> returns: \<open>None\<close>, booleans, integers, strings, lists and
  dictionaries (a dictionary as its items in insertion order, keys distinct). Numbers
  with a fraction or an exponent are not represented.
\<close>

datatype json = JNull | JBool bool | JInt int | JStr string | JArr "json list" | JObj "(string \<times> json) list"

text \<open>\<open>d[k] = v\<close> on a dictionary: an existing key keeps its place.\<close>

fun dict_set :: "(string \<times> json) list \<Rightarrow> string \<Rightarrow> json \<Rightarrow> (string \<times> json) list" where
  "dict_set [] k v = [(k, v)]"
| "dict_set ((k', v') # kvs) k v = (if k' = k then (k, v) # kvs else (k', v') # dict_set kvs k v)"








subsection \<open>A decoder for a fragment of JSON\<close>

text \<open>
  The handler below takes the decoder (\<^verbatim>\<open>json.loads(data.decode('utf-8'))\<close>) as an
  argument, and what is proved of the handler holds for every decoder. \<open>json_loads\<close>
  is the decoder on the JSON texts of ASCII bytes whose strings have no escape
  sequences and whose numbers are integers; it is used for the concrete runs. A text
  outside this fragment is not in its scope (it answers \<open>JSONDecodeError\<close>).
\<close>

datatype token =
    TLBrace | TRBrace | TLBrack | TRBrack | TColon | TComma
  | TString string | TInt int | TTrue | TFalse | TNull | TBad










text \<open>
  Recursive descent over the tokens. The first argument bounds the number of nested
  calls; \<open>json_loads\<close> starts it above twice the number of tokens.
\<close>

fun parse_value :: "nat \<Rightarrow> token list \<Rightarrow> (json \<times> token list) option"
  and parse_elements :: "nat \<Rightarrow> token list \<Rightarrow> (json list \<times> token list) option"
  and parse_members :: "nat \<Rightarrow> (string \<times> json) list \<Rightarrow> token list \<Rightarrow> ((string \<times> json) list \<times> token list) option"
where
  "parse_value 0 ts = None"
| "parse_value (Suc n) [] = None"
| "parse_value (Suc n) (t # ts) =
     (case t of
        TString s \<Rightarrow> Some (JStr s, ts)
      | TInt i \<Rightarrow> Some (JInt i, ts)
      | TTrue \<Rightarrow> Some (JBool True, ts)
      | TFalse \<Rightarrow> Some (JBool False, ts)
      | TNull \<Rightarrow> Some (JNull, ts)
      | TLBrack \<Rightarrow>
          (case ts of
             TRBrack # ts' \<Rightarrow> Some (JArr [], ts')
           | _ \<Rightarrow> (case parse_elements n ts of
                      None \<Rightarrow> None
                    | Some (xs, ts') \<Rightarrow> Some (JArr xs, ts')))
      | TLBrace \<Rightarrow>
          (case ts of
             TRBrace # ts' \<Rightarrow> Some (JObj [], ts')
           | _ \<Rightarrow> (case parse_members n [] ts of
                      None \<Rightarrow> None
                    | Some (kvs, ts') \<Rightarrow> Some (JObj kvs, ts')))
      | _ \<Rightarrow> None)"
| "parse_elements 0 ts = None"
| "parse_elements (Suc n) ts =
     (case parse_value n ts of
        Some (v, TComma # ts') \<Rightarrow>
          (case parse_elements n ts' of
             None \<Rightarrow> None
           | Some (vs, ts'') \<Rightarrow> Some (v # vs, ts''))
      | Some (v, TRBrack # ts') \<Rightarrow> Some ([v], ts')
      | _ \<Rightarrow> None)"
| "parse_members 0 acc ts = None"
| "parse_members (Suc n) acc ts =
     (case ts of
        TString k # TColon # ts1 \<Rightarrow>
          (case parse_value n ts1 of
             Some (v, TComma # ts') \<Rightarrow> parse_members n (dict_set acc k v) ts'
           | Some (v, TRBrace # ts') \<Rightarrow> Some (dict_set acc k v, ts')
           | _ \<Rightarrow> None)
      | _ \<Rightarrow> None)"


section \<open>Communication manager: the connection handler\<close>












section \<open>Properties of the density calculator\<close>

lemma deque_append_eq: "deque_append m xs x = drop (Suc (length xs) - m) (xs @ [x])"
  by (simp add: deque_append_def)

lemma update_counts:
  "vehicle_counts (snd (update now n c)) = deque_append (window_size c) (vehicle_counts c) n"
  by (simp add: update_def Let_def split: sum.splits)

lemma update_window_size: "window_size (snd (update now n c)) = window_size c"
  by (simp add: update_def Let_def split: sum.splits)

lemma window_step:
  assumes "length xs \<le> w"
  shows "drop (length (drop (Suc (length xs) - w) (xs @ [n])) + length ys - w)
           (drop (Suc (length xs) - w) (xs @ [n]) @ ys)
         = drop (length xs + Suc (length ys) - w) (xs @ n # ys)"
proof (cases "Suc (length xs) \<le> w")
  case True
  then show ?thesis by simp
next
  case False
  with assms have eq: "length xs = w" by simp
  show ?thesis
  proof (cases xs)
    case Nil
    with eq show ?thesis by simp
  next
    case (Cons a as)
    with eq show ?thesis by auto
  qed
qed

lemma updates_counts:
  "length (vehicle_counts c) \<le> window_size c \<Longrightarrow>
   vehicle_counts (snd (updates ps c)) =
     drop (length (vehicle_counts c) + length ps - window_size c) (vehicle_counts c @ map snd ps)"
proof (induction ps arbitrary: c)
  case Nil
  then show ?case by simp
next
  case (Cons p ps)
  obtain now n where p: "p = (now, n)" by (cases p)
  let ?c1 = "snd (update now n c)"
  have w: "window_size ?c1 = window_size c" by (rule update_window_size)
  have vc: "vehicle_counts ?c1 = drop (Suc (length (vehicle_counts c)) - window_size c) (vehicle_counts c @ [n])"
    by (simp add: update_counts deque_append_eq)
  have len: "length (vehicle_counts ?c1) \<le> window_size ?c1"
    using Cons.prems by (simp add: vc w)
  have "vehicle_counts (snd (updates (p # ps) c)) = vehicle_counts (snd (updates ps ?c1))"
    by (simp add: p split: prod.splits)
  also have "\<dots> = drop (length (vehicle_counts ?c1) + length ps - window_size c) (vehicle_counts ?c1 @ map snd ps)"
    using Cons.IH[OF len] by (simp add: w)
  also have "\<dots> = drop (length (vehicle_counts c) + length (p # ps) - window_size c) (vehicle_counts c @ map snd (p # ps))"
    unfolding vc using window_step[OF Cons.prems, of n "map snd ps"] by (simp add: p)
  finally show ?case .
qed

text \<open>
  C6. \<open>calculate_density\<close> returns 0 on an empty window and otherwise the mean of the
  window divided by the congestion threshold, capped at 1 (the division raises when
  the threshold is zero). After any sequence of updates of a new calculator the window
  holds the most recent \<open>window_size\<close> samples, oldest first. With window size 3 and
  threshold 15 the updates 5, 10, 15, 100 leave the window 10, 15, 100 and the
  density 1.
\<close>

theorem density_of_window:
  "(vehicle_counts c = [] \<longrightarrow> calculate_density c = Inr 0)
   \<and> (vehicle_counts c \<noteq> [] \<longrightarrow>
        calculate_density c =
          (if congestion_threshold c = 0 then Inl ZeroDivisionError
           else Inr (min 1 (mean (vehicle_counts c) / congestion_threshold c))))
   \<and> vehicle_counts (snd (updates ps (TrafficDensityCalculator_init W thr t0)))
        = drop (length ps - W) (map snd ps)
   \<and> vehicle_counts (snd (updates [(1, 5), (2, 10), (3, 15), (4, 100)] (TrafficDensityCalculator_init 3 15 0)))
        = [10, 15, 100]
   \<and> calculate_density (snd (updates [(1, 5), (2, 10), (3, 15), (4, 100)] (TrafficDensityCalculator_init 3 15 0)))
        = Inr 1"
proof -
  have w: "vehicle_counts (snd (updates ps (TrafficDensityCalculator_init W thr t0)))
        = drop (length ps - W) (map snd ps)"
    using updates_counts[of "TrafficDensityCalculator_init W thr t0" ps]
    by (simp add: TrafficDensityCalculator_init_def)
  have ex: "updates [(1, 5), (2, 10), (3, 15), (4, 100)] (TrafficDensityCalculator_init 3 15 0) =
    ([Inr (1/3), Inr (1/2), Inr (2/3), Inr 1],
     \<lparr> window_size = 3, congestion_threshold = 15, vehicle_counts = [10, 15, 100],
       density_history = [1/3, 1/2, 2/3, 1], last_update_time = 4 \<rparr>)"
    by (simp add: update_def deque_append_def calculate_density_def TrafficDensityCalculator_init_def Let_def)
  have d: "calculate_density \<lparr> window_size = 3, congestion_threshold = 15, vehicle_counts = [10, 15, 100],
       density_history = [1/3, 1/2, 2/3, 1], last_update_time = 4 \<rparr> = Inr 1"
    by (simp add: calculate_density_def)
  have a: "vehicle_counts c = [] \<longrightarrow> calculate_density c = Inr 0"
    by (simp add: calculate_density_def)
  have b: "vehicle_counts c \<noteq> [] \<longrightarrow>
        calculate_density c =
          (if congestion_threshold c = 0 then Inl ZeroDivisionError
           else Inr (min 1 (mean (vehicle_counts c) / congestion_threshold c)))"
    by (simp add: calculate_density_def mean_def Let_def)
  have e1: "vehicle_counts (snd (updates [(1, 5), (2, 10), (3, 15), (4, 100)] (TrafficDensityCalculator_init 3 15 0)))
        = [10, 15, 100]"
    unfolding ex by simp
  have e2: "calculate_density (snd (updates [(1, 5), (2, 10), (3, 15), (4, 100)] (TrafficDensityCalculator_init 3 15 0)))
        = Inr 1"
    unfolding ex using d by simp
  from a b w e1 e2 show ?thesis by (intro conjI)
qed

theorem density_of_window_witness:
  "calculate_density \<lparr> window_size = 3, congestion_threshold = 15, vehicle_counts = [10, 15, 100],
       density_history = [], last_update_time = 0 \<rparr> = Inr (min 1 (mean [10, 15, 100] / 15))
   \<and> calculate_density (TrafficDensityCalculator_init 3 15 0) = Inr 0"
proof -
  let ?c = "\<lparr> window_size = 3, congestion_threshold = 15, vehicle_counts = [10, 15, 100],
       density_history = [], last_update_time = 0 \<rparr>"
  have ne: "vehicle_counts ?c \<noteq> []" by simp
  have e: "vehicle_counts (TrafficDensityCalculator_init 3 15 0) = []"
    by (simp add: TrafficDensityCalculator_init_def)
  note t1 = density_of_window[of ?c "[]" 0 0 0, THEN conjunct2, THEN conjunct1, rule_format, OF ne]
  note t2 = density_of_window[of "TrafficDensityCalculator_init 3 15 0" "[]" 0 0 0, THEN conjunct1, rule_format, OF e]
  from t1 t2 show ?thesis by simp
qed








section \<open>Properties of the traffic light\<close>

lemma next_phase_cycle:
  "next_phase ''green'' = ''yellow''" "next_phase ''yellow'' = ''red''" "next_phase ''red'' = ''green''"
  by (simp_all add: next_phase_def)

lemma get_current_phase_step:
  assumes "get_current_phase t1 t2 l = Inr (p, l')"
  shows "p = current_phase l' \<and> (current_phase l' = current_phase l \<or> current_phase l' = next_phase (current_phase l))"
  using assms
  by (auto simp: get_current_phase_def transition_to_next_phase_def Let_def split: option.splits if_splits)

lemma adjust_timing_phase: "current_phase (snd (adjust_timing now ph x l)) = current_phase l"
  by (simp add: adjust_timing_def Let_def split: option.splits)

lemma run_light_follows:
  assumes "\<forall>op \<in> set ops. \<not> is_force op"
  shows "follows_cycle (current_phase l) (fst (run_light ops l))
       \<and> follows_cycle (current_phase l) (fst (run_light ops l) @ [current_phase (snd (run_light ops l))])"
  using assms
proof (induction ops arbitrary: l)
  case Nil
  then show ?case by simp
next
  case (Cons op ops)
  have nf: "\<not> is_force op" and rest: "\<forall>op \<in> set ops. \<not> is_force op" using Cons.prems by simp_all
  obtain obs l1 where a: "apply_light_op op l = (obs, l1)" by (cases "apply_light_op op l")
  have step: "(obs = [] \<and> current_phase l1 = current_phase l) \<or>
              (obs = [current_phase l1] \<and> (current_phase l1 = current_phase l \<or> current_phase l1 = next_phase (current_phase l)))"
  proof (cases op)
    case (GetCurrentPhase t1 t2)
    show ?thesis
    proof (cases "get_current_phase t1 t2 l")
      case (Inl e)
      with a GetCurrentPhase show ?thesis by simp
    next
      case (Inr r)
      obtain p l' where r: "r = (p, l')" by (cases r)
      from get_current_phase_step[of t1 t2 l p l'] Inr r a GetCurrentPhase show ?thesis by auto
    qed
  next
    case (AdjustTiming now ph x)
    with a show ?thesis using adjust_timing_phase[of now ph x l] by auto
  next
    case (GetTimeRemaining now)
    with a show ?thesis by auto
  next
    case (ForcePhase now ph)
    with nf show ?thesis by simp
  qed
  obtain obs' l2 where b: "run_light ops l1 = (obs', l2)" by (cases "run_light ops l1")
  have r: "run_light (op # ops) l = (obs @ obs', l2)" by (simp add: a b)
  from Cons.IH[OF rest, of l1] b
  have ih: "follows_cycle (current_phase l1) obs'" "follows_cycle (current_phase l1) (obs' @ [current_phase l2])"
    by simp_all
  from step show ?case
  proof
    assume "obs = [] \<and> current_phase l1 = current_phase l"
    with ih r show ?thesis by simp
  next
    assume "obs = [current_phase l1] \<and> (current_phase l1 = current_phase l \<or> current_phase l1 = next_phase (current_phase l))"
    with ih r show ?thesis by auto
  qed
qed

lemma phases_inv:
  assumes "current_phase l \<in> {''red'', ''yellow'', ''green''}"
  shows "current_phase (snd (apply_light_op op l)) \<in> {''red'', ''yellow'', ''green''}"
proof (cases op)
  case (GetCurrentPhase t1 t2)
  then show ?thesis using assms
    by (auto simp: get_current_phase_def transition_to_next_phase_def next_phase_def Let_def split: option.splits)
next
  case (AdjustTiming now ph x)
  then show ?thesis using assms adjust_timing_phase[of now ph x l] by simp
next
  case (GetTimeRemaining x3)
  then show ?thesis using assms by simp
next
  case (ForcePhase now ph)
  then show ?thesis using assms by (auto simp: force_phase_def)
qed

lemma run_light_phases:
  assumes "current_phase l \<in> {''red'', ''yellow'', ''green''}"
  shows "set (fst (run_light ops l)) \<subseteq> {''red'', ''yellow'', ''green''}"
  using assms
proof (induction ops arbitrary: l)
  case Nil
  then show ?case by simp
next
  case (Cons op ops)
  obtain obs l1 where a: "apply_light_op op l = (obs, l1)" by (cases "apply_light_op op l")
  have l1: "current_phase l1 \<in> {''red'', ''yellow'', ''green''}"
    using phases_inv[OF Cons.prems, of op] a by simp
  have obs: "set obs \<subseteq> {current_phase l1}"
  proof (cases op)
    case (GetCurrentPhase t1 t2)
    show ?thesis
    proof (cases "get_current_phase t1 t2 l")
      case (Inl e)
      with a GetCurrentPhase show ?thesis by simp
    next
      case (Inr r)
      obtain p l' where r: "r = (p, l')" by (cases r)
      from get_current_phase_step[of t1 t2 l p l'] Inr r a GetCurrentPhase show ?thesis by auto
    qed
  qed (use a in auto)
  obtain obs' l2 where b: "run_light ops l1 = (obs', l2)" by (cases "run_light ops l1")
  from Cons.IH[OF l1] b have "set obs' \<subseteq> {''red'', ''yellow'', ''green''}" by simp
  with obs l1 show ?case by (auto simp: a b)
qed

text \<open>
  C2. The transition order is green, yellow, red, green. A new light is red. Along
  every run of operations without \<open>force_phase\<close>, the phases \<open>get_current_phase\<close>
  returns follow that cycle from red: each is the phase before it or the successor of
  that phase, and each is one of the three phases. \<open>force_phase\<close> can leave the order:
  forced to yellow, a new light reports yellow directly after red.
\<close>

theorem phase_cycle:
  assumes "\<forall>op \<in> set ops. \<not> is_force op"
  shows "next_phase ''green'' = ''yellow'' \<and> next_phase ''yellow'' = ''red'' \<and> next_phase ''red'' = ''green''
       \<and> current_phase (TrafficLight_init i tm t0) = ''red''
       \<and> follows_cycle ''red'' (fst (run_light ops (TrafficLight_init i tm t0)))
       \<and> set (fst (run_light ops (TrafficLight_init i tm t0))) \<subseteq> {''red'', ''yellow'', ''green''}
       \<and> \<not> follows_cycle ''red''
             (fst (run_light [ForcePhase 0 ''yellow'', GetCurrentPhase 0 0] (TrafficLight_init i None 0)))"
proof -
  let ?l = "TrafficLight_init i tm t0"
  have red: "current_phase ?l = ''red''" by (simp add: TrafficLight_init_def)
  have "follows_cycle (current_phase ?l) (fst (run_light ops ?l))"
    using run_light_follows[OF assms, of ?l] by blast
  moreover have "set (fst (run_light ops ?l)) \<subseteq> {''red'', ''yellow'', ''green''}"
    by (rule run_light_phases) (simp add: red)
  moreover have "\<not> follows_cycle ''red''
             (fst (run_light [ForcePhase 0 ''yellow'', GetCurrentPhase 0 0] (TrafficLight_init i None 0)))"
    by (simp add: TrafficLight_init_def force_phase_def get_current_phase_def default_timing_def next_phase_def)
  ultimately show ?thesis using red by (simp add: next_phase_cycle)
qed

theorem phase_cycle_witness:
  "fst (run_light [GetCurrentPhase 10 10, AdjustTiming 11 ''green'' 40, GetCurrentPhase 30 30,
                   GetCurrentPhase 500 500, GetTimeRemaining 501, GetCurrentPhase 505 505]
          (TrafficLight_init ''L1'' None 0)) = [''red'', ''green'', ''yellow'', ''red'']
   \<and> follows_cycle ''red'' [''red'', ''green'', ''yellow'', ''red'']"
proof -
  let ?ops = "[GetCurrentPhase 10 10, AdjustTiming 11 ''green'' 40, GetCurrentPhase 30 30,
                   GetCurrentPhase 500 500, GetTimeRemaining 501, GetCurrentPhase 505 505]"
  have nf: "\<forall>op \<in> set ?ops. \<not> is_force op" by simp
  have run: "fst (run_light ?ops (TrafficLight_init ''L1'' None 0)) = [''red'', ''green'', ''yellow'', ''red'']"
    by (simp add: TrafficLight_init_def get_current_phase_def transition_to_next_phase_def
        adjust_timing_def default_timing_def next_phase_def Let_def)
  note fc = phase_cycle[OF nf, of "''L1''" None 0, THEN conjunct2, THEN conjunct2, THEN conjunct2,
      THEN conjunct2, THEN conjunct1]
  from run fc[unfolded run] show ?thesis by (rule conjI)
qed

text \<open>
  C10. One call of \<open>get_current_phase\<close> on a light whose current phase has a duration
  makes one transition when the elapsed time has reached that duration, however far
  beyond it the clock is: the phase returned is the successor of the phase before, not
  the one after it, and the start of the phase is the clock read at the transition.
  Before the duration has elapsed the call changes nothing.
\<close>

theorem single_transition:
  assumes "timing l (current_phase l) = Some d"
    and "current_phase l \<in> {''red'', ''yellow'', ''green''}"
  shows "(t1 - phase_start_time l \<ge> d \<longrightarrow>
            get_current_phase t1 t2 l =
              Inr (next_phase (current_phase l),
                   l\<lparr> current_phase := next_phase (current_phase l), phase_start_time := t2 \<rparr>)
            \<and> next_phase (current_phase l) \<noteq> current_phase l
            \<and> next_phase (current_phase l) \<noteq> next_phase (next_phase (current_phase l)))
       \<and> (t1 - phase_start_time l < d \<longrightarrow> get_current_phase t1 t2 l = Inr (current_phase l, l))"
  using assms
  by (auto simp: get_current_phase_def transition_to_next_phase_def next_phase_def Let_def)

theorem single_transition_witness:
  "get_current_phase 1000 1001 (TrafficLight_init ''L1'' None 0)
     = Inr (''green'', (TrafficLight_init ''L1'' None 0)\<lparr> current_phase := ''green'', phase_start_time := 1001 \<rparr>)
   \<and> get_current_phase 10 11 (TrafficLight_init ''L1'' None 0) = Inr (''red'', TrafficLight_init ''L1'' None 0)"
proof -
  let ?l = "TrafficLight_init ''L1'' None 0"
  have a: "timing ?l (current_phase ?l) = Some 30" "current_phase ?l \<in> {''red'', ''yellow'', ''green''}"
    "current_phase ?l = ''red''" "phase_start_time ?l = 0"
    by (simp_all add: TrafficLight_init_def default_timing_def)
  from single_transition[OF a(1,2), of 1000 1001] single_transition[OF a(1,2), of 10 11] a(3,4)
  show ?thesis by (simp add: next_phase_def)
qed

lemma adjust_yellow_floor:
  assumes "timing l ''yellow'' \<noteq> None"
  shows "fst (adjust_timing now ''yellow'' x l) \<and>
         timing (snd (adjust_timing now ''yellow'' x l)) ''yellow'' = Some (if x < 3 then 3 else x)"
  using assms by (auto simp: adjust_timing_def Let_def)

text \<open>
  C3 (the code at the failing input). The constructor stores a caller-supplied timing
  table as it is: a light constructed with a yellow time of 1 has a yellow time of 1,
  below the floor of 3 that \<open>adjust_timing\<close> applies to the same value.
\<close>

theorem init_yellow_below_floor:
  "timing (TrafficLight_init ''L1'' (Some [''green'' \<mapsto> 30, ''yellow'' \<mapsto> 1, ''red'' \<mapsto> 30]) 0) ''yellow'' = Some 1
   \<and> timing (snd (adjust_timing 0 ''yellow'' 1 (TrafficLight_init ''L1'' None 0))) ''yellow'' = Some 3"
  by (simp add: TrafficLight_init_def adjust_timing_def default_timing_def)

section \<open>Properties of the controller\<close>




lemma controller_L1_eq:
  "controller_L1 = \<lparr> traffic_lights = [''L1'' \<mapsto> TrafficLight_init ''L1'' None 0],
      traffic_densities = [''L1'' \<mapsto> 0], coordination_groups = [] \<rparr>"
  by (simp add: controller_L1_def add_traffic_light_def TrafficLightController_init_def Let_def)





lemma connect_lights_at:
  "connect_lights ids xs m lid =
     (if lid \<in> set xs
      then map_option (\<lambda>l. l\<lparr> connected_lights := filter (\<lambda>i. i \<noteq> lid) ids \<rparr>) (m lid)
      else m lid)"
proof (induction xs arbitrary: m)
  case Nil
  then show ?case by simp
next
  case (Cons x xs)
  show ?case
    by (cases "m x") (simp_all add: Cons.IH)
qed

text \<open>
  C8. \<open>create_coordination_group\<close> returns \<open>False\<close> and leaves the controller as it was
  when an id of the list is unknown. When every id is known it returns \<open>True\<close>, appends
  the list to the groups, and sets the connected lights of each listed light to the
  ids of the list other than its own; nothing else changes.
\<close>

theorem coordination_group_creation:
  "((\<exists>lid \<in> set ids. traffic_lights c lid = None) \<longrightarrow> create_coordination_group ids c = (False, c))
   \<and> ((\<forall>lid \<in> set ids. traffic_lights c lid \<noteq> None) \<longrightarrow>
        fst (create_coordination_group ids c)
        \<and> coordination_groups (snd (create_coordination_group ids c)) = coordination_groups c @ [ids]
        \<and> traffic_densities (snd (create_coordination_group ids c)) = traffic_densities c
        \<and> (\<forall>lid \<in> set ids. \<exists>l. traffic_lights c lid = Some l
              \<and> traffic_lights (snd (create_coordination_group ids c)) lid
                  = Some (l\<lparr> connected_lights := filter (\<lambda>i. i \<noteq> lid) ids \<rparr>))
        \<and> (\<forall>lid. lid \<notin> set ids \<longrightarrow>
              traffic_lights (snd (create_coordination_group ids c)) lid = traffic_lights c lid))"
proof (intro conjI impI)
  assume "\<exists>lid \<in> set ids. traffic_lights c lid = None"
  then show "create_coordination_group ids c = (False, c)"
    by (simp add: create_coordination_group_def)
next
  assume known: "\<forall>lid \<in> set ids. traffic_lights c lid \<noteq> None"
  then have r: "create_coordination_group ids c =
     (True, c\<lparr> coordination_groups := coordination_groups c @ [ids],
               traffic_lights := connect_lights ids ids (traffic_lights c) \<rparr>)"
    by (auto simp: create_coordination_group_def Let_def)
  show "fst (create_coordination_group ids c)" by (simp add: r)
  show "coordination_groups (snd (create_coordination_group ids c)) = coordination_groups c @ [ids]"
    by (simp add: r)
  show "traffic_densities (snd (create_coordination_group ids c)) = traffic_densities c"
    by (simp add: r)
  show "\<forall>lid \<in> set ids. \<exists>l. traffic_lights c lid = Some l
              \<and> traffic_lights (snd (create_coordination_group ids c)) lid
                  = Some (l\<lparr> connected_lights := filter (\<lambda>i. i \<noteq> lid) ids \<rparr>)"
    using known by (auto simp: r connect_lights_at)
  show "\<forall>lid. lid \<notin> set ids \<longrightarrow>
              traffic_lights (snd (create_coordination_group ids c)) lid = traffic_lights c lid"
    by (simp add: r connect_lights_at)
qed

lemma controller_L1L2_eq:
  "controller_L1L2 = \<lparr> traffic_lights = [''L1'' \<mapsto> TrafficLight_init ''L1'' None 0,
                                          ''L2'' \<mapsto> TrafficLight_init ''L2'' None 0],
      traffic_densities = [''L1'' \<mapsto> 0, ''L2'' \<mapsto> 0], coordination_groups = [] \<rparr>"
  by (simp add: controller_L1L2_def controller_L1_eq add_traffic_light_def Let_def)

theorem coordination_group_creation_witness:
  "create_coordination_group [''L1'', ''L9''] controller_L1L2 = (False, controller_L1L2)
   \<and> fst (create_coordination_group [''L1'', ''L2''] controller_L1L2)
   \<and> coordination_groups (snd (create_coordination_group [''L1'', ''L2''] controller_L1L2)) = [[''L1'', ''L2'']]
   \<and> traffic_lights (snd (create_coordination_group [''L1'', ''L2''] controller_L1L2)) ''L1''
        = Some ((TrafficLight_init ''L1'' None 0)\<lparr> connected_lights := [''L2''] \<rparr>)"
proof -
  have unknown: "\<exists>lid \<in> set [''L1'', ''L9'']. traffic_lights controller_L1L2 lid = None"
    by (simp add: controller_L1L2_eq)
  have known: "\<forall>lid \<in> set [''L1'', ''L2'']. traffic_lights controller_L1L2 lid \<noteq> None"
    by (simp add: controller_L1L2_eq)
  have l1: "traffic_lights controller_L1L2 ''L1'' = Some (TrafficLight_init ''L1'' None 0)"
    and g: "coordination_groups controller_L1L2 = []"
    by (simp_all add: controller_L1L2_eq)
  note a = coordination_group_creation[of "[''L1'', ''L9'']" controller_L1L2, THEN conjunct1, THEN mp, OF unknown]
  note b = coordination_group_creation[of "[''L1'', ''L2'']" controller_L1L2, THEN conjunct2, THEN mp, OF known]
  have b4: "\<exists>l. traffic_lights controller_L1L2 ''L1'' = Some l
              \<and> traffic_lights (snd (create_coordination_group [''L1'', ''L2''] controller_L1L2)) ''L1''
                  = Some (l\<lparr> connected_lights := filter (\<lambda>i. i \<noteq> ''L1'') [''L1'', ''L2''] \<rparr>)"
    using b by simp
  then have c: "traffic_lights (snd (create_coordination_group [''L1'', ''L2''] controller_L1L2)) ''L1''
        = Some ((TrafficLight_init ''L1'' None 0)\<lparr> connected_lights := [''L2''] \<rparr>)"
    using l1 by auto
  from b have b1: "fst (create_coordination_group [''L1'', ''L2''] controller_L1L2)"
    and b2: "coordination_groups (snd (create_coordination_group [''L1'', ''L2''] controller_L1L2)) = [[''L1'', ''L2'']]"
    using g by simp_all
  from a b1 b2 c show ?thesis by (intro conjI)
qed

lemma find_max_append:
  "find_max_density ds (xs @ ys) acc = find_max_density ds ys (find_max_density ds xs acc)"
  by (induction xs arbitrary: acc) (auto simp: Let_def)

lemma find_max_below:
  assumes "\<forall>j \<in> set xs. get_density ds j < b" and "a < b"
  shows "fst (find_max_density ds xs (a, x)) < b"
  using assms by (induction xs arbitrary: a x) (auto simp: Let_def)

lemma find_max_keep:
  assumes "\<forall>j \<in> set xs. get_density ds j \<le> a"
  shows "find_max_density ds xs (a, x) = (a, x)"
  using assms by (induction xs) (auto simp: Let_def)

lemma find_max_select:
  assumes "\<forall>j \<in> set pre. get_density ds j < get_density ds lid"
    and "\<forall>j \<in> set post. get_density ds j \<le> get_density ds lid"
    and "a < get_density ds lid"
  shows "find_max_density ds (pre @ lid # post) (a, x) = (get_density ds lid, Some lid)"
proof -
  obtain a' x' where p: "find_max_density ds pre (a, x) = (a', x')" by (cases "find_max_density ds pre (a, x)")
  have "a' < get_density ds lid" using find_max_below[OF assms(1,3), of x] p by simp
  then have "find_max_density ds (lid # post) (a', x') = find_max_density ds post (get_density ds lid, Some lid)"
    by (simp add: Let_def)
  also have "\<dots> = (get_density ds lid, Some lid)" by (rule find_max_keep[OF assms(2)])
  finally show ?thesis by (simp add: find_max_append p)
qed

lemma force_green_wave_state:
  assumes "traffic_lights c lid = Some l" and "get_time_remaining t_rem l = Inr remaining"
  shows "snd (force_green_wave t_rem t_force t_loop g lid c) =
     (if current_phase l \<noteq> ''green'' then
        (if current_phase l = ''red'' \<and> remaining < 5 then c
         else if current_phase l = ''yellow'' then c
         else c\<lparr> traffic_lights := (traffic_lights c)(lid \<mapsto> snd (force_phase t_force ''green'' l)) \<rparr>)
      else c)"
proof -
  have triv: "c\<lparr> traffic_lights := (traffic_lights c)(lid \<mapsto> l) \<rparr> = c"
    using assms(1) by (simp add: map_upd_triv)
  show ?thesis
    using assms triv by (simp add: force_green_wave_def Let_def)
qed

text \<open>
  C4 (as amended). In a group of at least two lights, let \<open>lid\<close> be the first light
  whose density is the maximum of the group (every light before it has a smaller
  density, every light after it none greater), with a non-empty id and a density above
  \<open>-1\<close>, registered, and with a duration for its phase. Then the search selects \<open>lid\<close>,
  and \<open>_coordinate_group\<close> changes the controller only when that density exceeds 0.7
  and the light is not green: it leaves a red light with less than 5 seconds remaining
  and a yellow light as they are, and otherwise forces the light to green at once.
\<close>

theorem green_wave_override:
  assumes "g = pre @ lid # post" and "2 \<le> length g"
    and "\<forall>j \<in> set pre. get_density (traffic_densities c) j < get_density (traffic_densities c) lid"
    and "\<forall>j \<in> set post. get_density (traffic_densities c) j \<le> get_density (traffic_densities c) lid"
    and "- 1 < get_density (traffic_densities c) lid"
    and "lid \<noteq> []"
    and "traffic_lights c lid = Some l"
    and "get_time_remaining t_rem l = Inr remaining"
  shows "find_max_density (traffic_densities c) g (- 1, None) = (get_density (traffic_densities c) lid, Some lid)
       \<and> snd (coordinate_group t_rem t_force t_loop g c) =
           (if get_density (traffic_densities c) lid > 7/10 \<and> current_phase l \<noteq> ''green'' then
              (if current_phase l = ''red'' \<and> remaining < 5 then c
               else if current_phase l = ''yellow'' then c
               else c\<lparr> traffic_lights := (traffic_lights c)(lid \<mapsto> snd (force_phase t_force ''green'' l)) \<rparr>)
            else c)
       \<and> snd (force_phase t_force ''green'' l) = l\<lparr> current_phase := ''green'', phase_start_time := t_force \<rparr>"
proof -
  have sel: "find_max_density (traffic_densities c) g (- 1, None) = (get_density (traffic_densities c) lid, Some lid)"
    unfolding assms(1) by (rule find_max_select[OF assms(3,4,5)])
  have ne: "g \<noteq> []" "\<not> length g < 2" using assms(1,2) by auto
  have fp: "snd (force_phase t_force ''green'' l) = l\<lparr> current_phase := ''green'', phase_start_time := t_force \<rparr>"
    by (simp add: force_phase_def)
  have cg: "snd (coordinate_group t_rem t_force t_loop g c) =
      (if current_phase l \<noteq> ''green'' \<and> get_density (traffic_densities c) lid > 7/10
       then snd (force_green_wave t_rem t_force t_loop g lid c) else c)"
    using ne sel assms(6,7)
    by (simp add: coordinate_group_def split: prod.splits sum.splits)
  show ?thesis
    unfolding cg force_green_wave_state[OF assms(7,8)] using sel fp by auto
qed

lemma controller_single_group_eq:
  "controller_single_group =
     \<lparr> traffic_lights = [''L1'' \<mapsto>
          \<lparr> light_id = ''L1'', timing = [''green'' \<mapsto> 57, ''yellow'' \<mapsto> 5, ''red'' \<mapsto> 16],
            current_phase = ''red'', phase_start_time = 0, connected_lights = [],
            timing_history = [\<lparr> timestamp = 0, phase = ''green'', old_value = 30, new_value = 57 \<rparr>,
                              \<lparr> timestamp = 0, phase = ''red'', old_value = 30, new_value = 16 \<rparr>] \<rparr>],
       traffic_densities = [''L1'' \<mapsto> 9/10], coordination_groups = [[''L1'']] \<rparr>"
  by (simp add: controller_single_group_def controller_L1_def add_traffic_light_def
      TrafficLightController_init_def update_traffic_density_def adjust_timing_based_on_density_def
      adjust_timing_def TrafficLight_init_def default_timing_def py_int_def
      create_coordination_group_def Let_def fun_upd_twist)

lemma controller_tie_eq:
  "controller_tie =
     \<lparr> traffic_lights =
         [''L1'' \<mapsto>
            \<lparr> light_id = ''L1'', timing = [''green'' \<mapsto> 57, ''yellow'' \<mapsto> 5, ''red'' \<mapsto> 16],
              current_phase = ''red'', phase_start_time = 0, connected_lights = [],
              timing_history = [\<lparr> timestamp = 0, phase = ''green'', old_value = 30, new_value = 57 \<rparr>,
                                \<lparr> timestamp = 0, phase = ''red'', old_value = 30, new_value = 16 \<rparr>] \<rparr>,
          ''L2'' \<mapsto>
            \<lparr> light_id = ''L2'', timing = [''green'' \<mapsto> 57, ''yellow'' \<mapsto> 5, ''red'' \<mapsto> 16],
              current_phase = ''red'', phase_start_time = 0, connected_lights = [],
              timing_history = [\<lparr> timestamp = 0, phase = ''green'', old_value = 30, new_value = 57 \<rparr>,
                                \<lparr> timestamp = 0, phase = ''red'', old_value = 30, new_value = 16 \<rparr>] \<rparr>],
       traffic_densities = [''L1'' \<mapsto> 9/10, ''L2'' \<mapsto> 9/10], coordination_groups = [] \<rparr>"
  by (simp add: controller_tie_def controller_L1L2_eq
      update_traffic_density_def adjust_timing_based_on_density_def
      adjust_timing_def TrafficLight_init_def default_timing_def py_int_def Let_def fun_upd_twist)

theorem green_wave_override_witness:
  "find_max_density (traffic_densities controller_tie) [''L1'', ''L2''] (- 1, None) = (9/10, Some ''L1'')
   \<and> map_option current_phase
        (traffic_lights (snd (coordinate_group 1 2 3 [''L1'', ''L2''] controller_tie)) ''L1'') = Some ''green''
   \<and> map_option current_phase
        (traffic_lights (snd (coordinate_group 1 2 3 [''L1'', ''L2''] controller_tie)) ''L2'') = Some ''red''"
proof -
  let ?l = "\<lparr> light_id = ''L1'', timing = [''green'' \<mapsto> 57, ''yellow'' \<mapsto> 5, ''red'' \<mapsto> 16],
              current_phase = ''red'', phase_start_time = 0, connected_lights = [],
              timing_history = [\<lparr> timestamp = 0, phase = ''green'', old_value = 30, new_value = 57 \<rparr>,
                                \<lparr> timestamp = 0, phase = ''red'', old_value = 30, new_value = 16 \<rparr>] \<rparr>"
  have g: "[''L1'', ''L2''] = [] @ ''L1'' # [''L2'']" "2 \<le> length [''L1'', ''L2'']" by simp_all
  have pre: "\<forall>j \<in> set []. get_density (traffic_densities controller_tie) j
               < get_density (traffic_densities controller_tie) ''L1''" by simp
  have post: "\<forall>j \<in> set [''L2'']. get_density (traffic_densities controller_tie) j
               \<le> get_density (traffic_densities controller_tie) ''L1''"
    by (simp add: controller_tie_eq get_density_def)
  have d: "get_density (traffic_densities controller_tie) ''L1'' = 9/10"
    by (simp add: controller_tie_eq get_density_def)
  have pos: "- 1 < get_density (traffic_densities controller_tie) ''L1''" by (simp add: d)
  have ne: "''L1'' \<noteq> []" by simp
  have l: "traffic_lights controller_tie ''L1'' = Some ?l" by (simp add: controller_tie_eq)
  have l2: "map_option current_phase (traffic_lights controller_tie ''L2'') = Some ''red''"
    by (simp add: controller_tie_eq)
  have rem: "get_time_remaining 1 ?l = Inr 15" by (simp add: get_time_remaining_def)
  note t = green_wave_override[OF g pre post pos ne l rem, of 2 3]
  have s: "snd (coordinate_group 1 2 3 [''L1'', ''L2''] controller_tie) =
      controller_tie\<lparr> traffic_lights := (traffic_lights controller_tie)(''L1'' \<mapsto>
          ?l\<lparr> current_phase := ''green'', phase_start_time := 2 \<rparr>) \<rparr>"
    using t[THEN conjunct2, THEN conjunct1] t[THEN conjunct2, THEN conjunct2] by (simp add: d)
  have a: "find_max_density (traffic_densities controller_tie) [''L1'', ''L2''] (- 1, None) = (9/10, Some ''L1'')"
    using t[THEN conjunct1] by (simp add: d)
  have b: "map_option current_phase
        (traffic_lights (snd (coordinate_group 1 2 3 [''L1'', ''L2''] controller_tie)) ''L1'') = Some ''green''"
    unfolding s by simp
  have c: "map_option current_phase
        (traffic_lights (snd (coordinate_group 1 2 3 [''L1'', ''L2''] controller_tie)) ''L2'') = Some ''red''"
    unfolding s using l2 by simp
  from a b c show ?thesis by (intro conjI)
qed

text \<open>
  The claim as stated fails for a group of one light: \<open>L1\<close> is the only member, its
  density 0.9 exceeds 0.7, it is red with 15 seconds remaining, and the call leaves it
  red.
\<close>

theorem single_member_group_not_forced:
  "coordination_groups controller_single_group = [[''L1'']]
   \<and> find_max_density (traffic_densities controller_single_group) [''L1''] (- 1, None) = (9/10, Some ''L1'')
   \<and> map_option current_phase (traffic_lights controller_single_group ''L1'') = Some ''red''
   \<and> map_option (get_time_remaining 1) (traffic_lights controller_single_group ''L1'') = Some (Inr 15)
   \<and> coordinate_group 1 1 1 [''L1''] controller_single_group = (None, controller_single_group)
   \<and> coordinate_lights clock_one controller_single_group = (None, controller_single_group)"
proof -
  have cg: "coordinate_group 1 1 1 [''L1''] controller_single_group = (None, controller_single_group)"
    by (simp add: coordinate_group_def)
  have g: "coordination_groups controller_single_group = [[''L1'']]"
    by (simp add: controller_single_group_eq)
  have cl: "coordinate_lights clock_one controller_single_group = (None, controller_single_group)"
    by (simp add: coordinate_lights_def g clock_one_def cg)
  have rest: "find_max_density (traffic_densities controller_single_group) [''L1''] (- 1, None) = (9/10, Some ''L1'')"
    "map_option current_phase (traffic_lights controller_single_group ''L1'') = Some ''red''"
    "map_option (get_time_remaining 1) (traffic_lights controller_single_group ''L1'') = Some (Inr 15)"
    by (simp_all add: controller_single_group_eq get_density_def get_time_remaining_def)
  from g rest cg cl show ?thesis by (intro conjI)
qed

section \<open>Properties of the connection handler\<close>





















end
